theory Spec2Isabelle
  imports Complex_Main
begin

section \<open>Numbers, vectors and the room\<close>

text \<open>
  The program is a browser scene written in JavaScript (src/main.js). Its numbers are
  IEEE doubles; this development reads them as real numbers, so rounding, NaN and the
  infinities are outside the model. A \<open>THREE.Vector3\<close> is a record of three reals, a
  \<open>THREE.Euler\<close> (the camera's \<open>rotation\<close>) a record of three angles.
\<close>

record vector3 =
  vx :: real
  vy :: real
  vz :: real

record euler =
  ex :: real
  ey :: real
  ez :: real

definition vec :: "real \<Rightarrow> real \<Rightarrow> real \<Rightarrow> vector3" where
  "vec a b c = \<lparr>vx = a, vy = b, vz = c\<rparr>"

definition ROOM_WIDTH :: real where "ROOM_WIDTH = 50"
definition ROOM_HEIGHT :: real where "ROOM_HEIGHT = 6"
definition ROOM_LENGTH :: real where "ROOM_LENGTH = 30"
definition GRAVITY :: real where "GRAVITY = - 30"
definition JUMP_FORCE :: real where "JUMP_FORCE = 10"
definition MAX_ARTWORK_DIMENSION :: real where "MAX_ARTWORK_DIMENSION = 5"

section \<open>The furniture registry\<close>

text \<open>
  An entry of the global array \<open>furniture\<close>. The planters are pushed without a
  \<open>rotation\<close> property, so the field is optional: \<open>None\<close> is JavaScript's
  \<open>undefined\<close>.
\<close>

datatype furniture_type = Planter | Bench | Decoration

record furniture_item =
  ftype :: furniture_type
  fposition :: vector3
  dimensions :: vector3
  rotation :: "real option"

text \<open>The four constructors of the scene, reduced to what they push on the registry.\<close>

definition createPlanter :: "real \<Rightarrow> real \<Rightarrow> furniture_item" where
  "createPlanter x z =
     \<lparr>ftype = Planter, fposition = vec x 0 z, dimensions = vec 2 3 2, rotation = None\<rparr>"

definition createBench :: "real \<Rightarrow> real \<Rightarrow> real \<Rightarrow> furniture_item" where
  "createBench x z rot =
     (let benchWidth = 4; benchHeight = 1; benchDepth = 1.5
      in \<lparr>ftype = Bench, fposition = vec x 0 z,
          dimensions = vec benchWidth benchHeight benchDepth, rotation = Some rot\<rparr>)"

definition createBalloonGroup :: "real \<Rightarrow> real \<Rightarrow> real \<Rightarrow> furniture_item" where
  "createBalloonGroup x y z =
     \<lparr>ftype = Decoration, fposition = vec x 0 z, dimensions = vec 1 3 1, rotation = Some 0\<rparr>"

text \<open>
  \<open>createGiftBox\<close> turns the box by \<open>Math.random() * Math.PI/2\<close>; the random number,
  in the half-open interval from 0 to 1, is the last argument here.
\<close>

definition createGiftBox ::
  "real \<Rightarrow> real \<Rightarrow> real \<Rightarrow> real \<Rightarrow> real \<Rightarrow> real \<Rightarrow> real \<Rightarrow> furniture_item" where
  "createGiftBox x y z width height depth rnd =
     \<lparr>ftype = Decoration, fposition = vec x (y + height / 2) z,
      dimensions = vec width height depth, rotation = Some (rnd * pi / 2)\<rparr>"

definition createGiftBoxes :: "(nat \<Rightarrow> real) \<Rightarrow> furniture_item list" where
  "createGiftBoxes rnd =
     [createGiftBox (- ROOM_WIDTH / 3) 0 (- ROOM_LENGTH / 3) 0.8 0.5 0.8 (rnd 0),
      createGiftBox (ROOM_WIDTH / 3) 0 (- ROOM_LENGTH / 3) 0.7 0.6 0.7 (rnd 1),
      createGiftBox 0 0 (ROOM_LENGTH / 3) 0.9 0.4 0.6 (rnd 2),
      createGiftBox (- ROOM_WIDTH / 2 + 2) 0 (- ROOM_LENGTH / 2 + 2) 1 0.6 0.8 (rnd 3),
      createGiftBox (- ROOM_WIDTH / 2 + 2) 0.6 (- ROOM_LENGTH / 2 + 2) 0.7 0.4 0.6 (rnd 4),
      createGiftBox (- ROOM_WIDTH / 2 + 2) 1.0 (- ROOM_LENGTH / 2 + 2) 0.5 0.3 0.5 (rnd 5)]"

definition createBalloons :: "furniture_item list" where
  "createBalloons =
     [createBalloonGroup (- ROOM_WIDTH / 4) 0 (- ROOM_LENGTH / 4),
      createBalloonGroup (ROOM_WIDTH / 4) 0 (- ROOM_LENGTH / 4),
      createBalloonGroup 0 0 (ROOM_LENGTH / 4),
      createBalloonGroup (- ROOM_WIDTH / 3) 0 (ROOM_LENGTH / 3),
      createBalloonGroup (ROOM_WIDTH / 3) 0 (ROOM_LENGTH / 3)]"

text \<open>
  The registry as \<open>init\<close> leaves it: \<open>setupLighting\<close> pushes the four planters and the
  two benches, \<open>createWalls\<close> then calls \<open>createBirthdayDecorations\<close>, which pushes the
  balloon groups and the gift boxes.
\<close>

definition scene_planters :: "furniture_item list" where
  "scene_planters =
     [createPlanter (- ROOM_WIDTH / 2 + 2) (- ROOM_LENGTH / 2 + 2),
      createPlanter (- ROOM_WIDTH / 2 + 2) (ROOM_LENGTH / 2 - 2),
      createPlanter (ROOM_WIDTH / 2 - 2) (- ROOM_LENGTH / 2 + 2),
      createPlanter (ROOM_WIDTH / 2 - 2) (ROOM_LENGTH / 2 - 2)]"

definition scene_benches :: "furniture_item list" where
  "scene_benches =
     [createBench 0 (- ROOM_LENGTH / 4) 0, createBench 0 (ROOM_LENGTH / 4) 0]"

definition scene_furniture :: "(nat \<Rightarrow> real) \<Rightarrow> furniture_item list" where
  "scene_furniture rnd =
     scene_planters @ scene_benches @ createBalloons @ createGiftBoxes rnd"

section \<open>The collision engine\<close>

text \<open>
  The half extents of an item in x and z, exchanged for a bench whose rotation is not
  0 (\<open>item.type === 'bench' && item.rotation !== 0\<close>).
\<close>

definition item_bounds :: "furniture_item \<Rightarrow> real \<times> real" where
  "item_bounds item =
     (let xBound = vx (dimensions item) / 2; zBound = vz (dimensions item) / 2
      in if ftype item = Bench \<and> rotation item \<noteq> Some 0 then (zBound, xBound)
         else (xBound, zBound))"

text \<open>
  One turn of the loop of \<open>checkFurnitureCollision\<close>: \<open>Some b\<close> when the body returns
  \<open>b\<close>, \<open>None\<close> when it falls through to the next item. The player's height is the y
  coordinate of the position tested.
\<close>

definition check_item :: "furniture_item \<Rightarrow> vector3 \<Rightarrow> bool option" where
  "check_item item newPosition =
     (let dx = vx newPosition - vx (fposition item);
          dz = vz newPosition - vz (fposition item);
          xBound = fst (item_bounds item);
          zBound = snd (item_bounds item)
      in if \<bar>dx\<bar> < xBound + 0.3 \<and> \<bar>dz\<bar> < zBound + 0.3 then
           (if ftype item = Bench then
              (let playerHeight = vy newPosition; benchTotalHeight = 1.0
               in if playerHeight > benchTotalHeight + 1.0 then Some False
                  else if \<bar>playerHeight - 3\<bar> < 0.1 then
                    (let topSurfaceXBound = xBound - 0.1; topSurfaceZBound = zBound - 0.1
                     in if \<bar>dx\<bar> < topSurfaceXBound \<and> \<bar>dz\<bar> < topSurfaceZBound
                        then Some False else Some True)
                  else if playerHeight \<le> benchTotalHeight + 1.0 then Some True
                  else None)
            else Some True)
         else None)"

fun checkFurnitureCollision :: "furniture_item list \<Rightarrow> vector3 \<Rightarrow> bool" where
  "checkFurnitureCollision [] newPosition = False"
| "checkFurnitureCollision (item # rest) newPosition =
     (case check_item item newPosition of
        Some b \<Rightarrow> b
      | None \<Rightarrow> checkFurnitureCollision rest newPosition)"

section \<open>Vector operations of the library\<close>

text \<open>
  The methods of \<open>THREE.Vector3\<close> that the program calls, as three.js computes them.
\<close>

definition distanceTo :: "vector3 \<Rightarrow> vector3 \<Rightarrow> real" where
  "distanceTo a b =
     (let dx = vx a - vx b; dy = vy a - vy b; dz = vz a - vz b
      in sqrt (dx * dx + dy * dy + dz * dz))"

definition sub :: "vector3 \<Rightarrow> vector3 \<Rightarrow> vector3" where
  "sub a b = vec (vx a - vx b) (vy a - vy b) (vz a - vz b)"

definition addScaledVector :: "vector3 \<Rightarrow> vector3 \<Rightarrow> real \<Rightarrow> vector3" where
  "addScaledVector a v k = vec (vx a + vx v * k) (vy a + vy v * k) (vz a + vz v * k)"

definition crossVectors :: "vector3 \<Rightarrow> vector3 \<Rightarrow> vector3" where
  "crossVectors a b =
     vec (vy a * vz b - vz a * vy b) (vz a * vx b - vx a * vz b) (vx a * vy b - vy a * vx b)"

definition lengthSq :: "vector3 \<Rightarrow> real" where
  "lengthSq a = vx a * vx a + vy a * vy a + vz a * vz a"

definition dot :: "vector3 \<Rightarrow> vector3 \<Rightarrow> real" where
  "dot a b = vx a * vx b + vy a * vy b + vz a * vz b"

text \<open>\<open>normalize\<close> divides by \<open>length() || 1\<close>: a zero vector stays zero.\<close>

definition normalize :: "vector3 \<Rightarrow> vector3" where
  "normalize a =
     (let l = sqrt (lengthSq a); d = (if l = 0 then 1 else l)
      in vec (vx a / d) (vy a / d) (vz a / d))"

definition angleTo :: "vector3 \<Rightarrow> vector3 \<Rightarrow> real" where
  "angleTo a b =
     (let denominator = sqrt (lengthSq a * lengthSq b)
      in if denominator = 0 then pi / 2
         else arccos (max (- 1) (min 1 (dot a b / denominator))))"

text \<open>
  A rotation by the angle \<open>t\<close> about the vertical axis, which is what the quaternion of
  an artwork's group is (\<open>artworkGroup.rotation.y = pos.rotation\<close>), applied to a vector.
\<close>

definition applyQuaternion_y :: "real \<Rightarrow> vector3 \<Rightarrow> vector3" where
  "applyQuaternion_y t v = vec (vx v * cos t + vz v * sin t) (vy v) (vz v * cos t - vx v * sin t)"

text \<open>
  The first column of the camera's matrix for its Euler angles (order XYZ), the camera's
  right-hand direction, from which \<open>PointerLockControls\<close> moves the camera.
\<close>

definition matrix_column0 :: "euler \<Rightarrow> vector3" where
  "matrix_column0 r =
     (let a = cos (ex r); b = sin (ex r); c = cos (ey r); d = sin (ey r);
          e = cos (ez r); f = sin (ez r)
      in vec (c * e) (a * f + b * e * d) (b * f - a * e * d))"

section \<open>Artworks and the state of the page\<close>

record artwork_group =
  gposition :: vector3
  grotation_y :: real

text \<open>
  An entry of the global array \<open>artworks\<close>. A property that may be \<open>undefined\<close> is
  optional.
\<close>

record artwork =
  agroup :: artwork_group
  originalPosition :: vector3
  isZoomed :: bool
  imagePath :: string
  atitle :: "string option"
  adescription :: "string option"
  awidth :: "real option"
  aheight :: "real option"

text \<open>
  The global variables of main.js, the two facts about the page that the focus mode
  changes (the pointer lock of \<open>controls\<close> and the artwork panel), and the two
  registries. \<open>controls.lock()\<close> and \<open>controls.unlock()\<close> are taken to succeed at once.
\<close>

record world =
  camera_position :: vector3
  camera_rotation :: euler
  moveForward :: bool
  moveBackward :: bool
  moveLeft :: bool
  moveRight :: bool
  isJumping :: bool
  jumpVelocity :: real
  canJump :: bool
  velocity :: vector3
  direction :: vector3
  isZooming :: bool
  originalCameraPosition :: "vector3 option"
  originalCameraRotation :: "euler option"
  controls_isLocked :: bool
  info_title :: "string option"
  love_message :: "string option"
  info_display :: bool
  furniture :: "furniture_item list"
  artworks :: "artwork list"

text \<open>The state after \<open>init\<close>, before any texture has loaded.\<close>

definition init_world :: "(nat \<Rightarrow> real) \<Rightarrow> world" where
  "init_world rnd =
     \<lparr>camera_position = vec 0 2 0, camera_rotation = \<lparr>ex = 0, ey = 0, ez = 0\<rparr>,
      moveForward = False, moveBackward = False, moveLeft = False, moveRight = False,
      isJumping = False, jumpVelocity = 0, canJump = True,
      velocity = vec 0 0 0, direction = vec 0 0 0, isZooming = False,
      originalCameraPosition = None, originalCameraRotation = None,
      controls_isLocked = False, info_title = None, love_message = None,
      info_display = False, furniture = scene_furniture rnd, artworks = []\<rparr>"

section \<open>The focus controller\<close>

text \<open>
  \<open>zoomToArtwork\<close>. \<open>camera.lookAt\<close> belongs to the library and is a parameter: the
  rotation of a camera at the first position looking at the second. The result is
  \<open>None\<close> for an artwork with an undefined dimension, where the program computes
  with NaN; \<open>findNearestArtwork\<close> never returns such an artwork.
\<close>

definition zoomToArtwork ::
  "(vector3 \<Rightarrow> vector3 \<Rightarrow> euler) \<Rightarrow> artwork \<Rightarrow> world \<Rightarrow> world option" where
  "zoomToArtwork lookAt artwork s =
     (if isZooming s then Some s
      else case (awidth artwork, aheight artwork) of
        (Some w, Some h) \<Rightarrow>
          (let viewingDistance = max 1.5 (max w h * 0.8);
               offset = applyQuaternion_y (grotation_y (agroup artwork)) (vec 0 0 viewingDistance);
               t0 = sub (gposition (agroup artwork)) offset;
               targetPosition =
                 vec (max (- ROOM_WIDTH / 2 + 1.5) (min (ROOM_WIDTH / 2 - 1.5) (vx t0)))
                     (ROOM_HEIGHT / 2 - 1)
                     (max (- ROOM_LENGTH / 2 + 1.5) (min (ROOM_LENGTH / 2 - 1.5) (vz t0)))
           in Some (s\<lparr>originalCameraPosition := Some (camera_position s),
                      originalCameraRotation := Some (camera_rotation s),
                      isZooming := True,
                      controls_isLocked := False,
                      camera_position := targetPosition,
                      camera_rotation := lookAt targetPosition (gposition (agroup artwork)),
                      info_title := atitle artwork,
                      love_message := adescription artwork,
                      info_display := True\<rparr>))
      | _ \<Rightarrow> None)"

definition safePositions :: "vector3 list" where
  "safePositions =
     [vec 0 2 0, vec (- ROOM_WIDTH / 4) 2 0, vec (ROOM_WIDTH / 4) 2 0,
      vec 0 2 (- ROOM_LENGTH / 4), vec 0 2 (ROOM_LENGTH / 4)]"

text \<open>
  The loop of \<open>resetZoom\<close> over the safe positions from the second on, with
  \<open>closestSafePosition\<close> and \<open>minDistance\<close> as accumulators. The array has five
  entries, so \<open>safePositions[0]\<close>, where the loop starts, is its head.
\<close>

fun closest_safe ::
  "furniture_item list \<Rightarrow> vector3 \<Rightarrow> vector3 list \<Rightarrow> vector3 \<Rightarrow> real \<Rightarrow> vector3" where
  "closest_safe fs validPosition [] closestSafePosition minDistance = closestSafePosition"
| "closest_safe fs validPosition (q # qs) closestSafePosition minDistance =
     (let distance = distanceTo validPosition q
      in if distance < minDistance \<and> \<not> checkFurnitureCollision fs q
         then closest_safe fs validPosition qs q distance
         else closest_safe fs validPosition qs closestSafePosition minDistance)"

definition resetZoom :: "world \<Rightarrow> world" where
  "resetZoom s =
     (let validPosition =
            (case (originalCameraPosition s, originalCameraRotation s) of
               (Some p, Some r) \<Rightarrow>
                 (let v = vec (max (- ROOM_WIDTH / 2 + 1) (min (ROOM_WIDTH / 2 - 1) (vx p)))
                              (max 2 (vy p))
                              (max (- ROOM_LENGTH / 2 + 1) (min (ROOM_LENGTH / 2 - 1) (vz p)))
                  in if checkFurnitureCollision (furniture s) v
                     then closest_safe (furniture s) v (tl safePositions)
                            (hd safePositions) (distanceTo v (hd safePositions))
                     else v)
             | _ \<Rightarrow> vec 0 2 0)
      in s\<lparr>camera_position := validPosition,
            camera_rotation :=
              (case originalCameraRotation s of Some r \<Rightarrow> r | None \<Rightarrow> camera_rotation s),
            isZooming := False,
            controls_isLocked := True,
            info_display := False,
            originalCameraPosition := None,
            originalCameraRotation := None\<rparr>)"

section \<open>The bounds watchdog\<close>

definition emergencyReset :: "world \<Rightarrow> world" where
  "emergencyReset s =
     (let s1 = (if isZooming s then resetZoom s else s)
      in s1\<lparr>camera_position := vec 0 2 0,
             velocity := vec 0 0 0,
             direction := vec 0 0 0,
             moveForward := False,
             moveBackward := False,
             moveLeft := False,
             moveRight := False,
             controls_isLocked := True\<rparr>)"

text \<open>
  The condition of the first statement of \<open>animate\<close>, with JavaScript's precedence:
  \<open>&&\<close> binds tighter than \<open>||\<close>, so \<open>!isZooming\<close> guards the test of the height only.
\<close>

definition watchdog_triggered :: "world \<Rightarrow> bool" where
  "watchdog_triggered s =
     ((\<not> isZooming s \<and> vy (camera_position s) < 0) \<or>
      vx (camera_position s) < - ROOM_WIDTH / 2 - 5 \<or>
      vx (camera_position s) > ROOM_WIDTH / 2 + 5 \<or>
      vz (camera_position s) < - ROOM_LENGTH / 2 - 5 \<or>
      vz (camera_position s) > ROOM_LENGTH / 2 + 5)"

definition watchdog :: "world \<Rightarrow> world" where
  "watchdog s = (if watchdog_triggered s then emergencyReset s else s)"

section \<open>The movement controller\<close>

text \<open>
  \<open>controls.moveRight\<close> and \<open>controls.moveForward\<close> of \<open>PointerLockControls\<close>: the
  camera moves along its own right-hand direction, and along the cross product of its
  up vector (0, 1, 0) with that direction.
\<close>

definition controls_moveRight :: "real \<Rightarrow> world \<Rightarrow> world" where
  "controls_moveRight distance s =
     s\<lparr>camera_position :=
         addScaledVector (camera_position s) (matrix_column0 (camera_rotation s)) distance\<rparr>"

definition controls_moveForward :: "real \<Rightarrow> world \<Rightarrow> world" where
  "controls_moveForward distance s =
     s\<lparr>camera_position :=
         addScaledVector (camera_position s)
           (crossVectors (vec 0 1 0) (matrix_column0 (camera_rotation s))) distance\<rparr>"

text \<open>
  Whether a position is over a bench shrunk by 0.2 on each side: the test shared by the
  landing loop and the standing loop of \<open>animate\<close>.
\<close>

definition over_bench :: "furniture_item \<Rightarrow> vector3 \<Rightarrow> bool" where
  "over_bench item pos =
     (ftype item = Bench \<and>
      (let dx = vx pos - vx (fposition item);
           dz = vz pos - vz (fposition item);
           landingXBound = fst (item_bounds item) - 0.2;
           landingZBound = snd (item_bounds item) - 0.2
       in \<bar>dx\<bar> < landingXBound \<and> \<bar>dz\<bar> < landingZBound))"

definition damp_velocity :: "real \<Rightarrow> world \<Rightarrow> world" where
  "damp_velocity delta s =
     s\<lparr>velocity := (velocity s)\<lparr>vx := vx (velocity s) - vx (velocity s) * 10.0 * delta,
                                 vz := vz (velocity s) - vz (velocity s) * 10.0 * delta\<rparr>\<rparr>"

definition jump_step :: "real \<Rightarrow> world \<Rightarrow> world" where
  "jump_step delta s =
     (if isJumping s then
        (let jv = jumpVelocity s + GRAVITY * delta;
             pos = (camera_position s)\<lparr>vy := vy (camera_position s) + jv * delta\<rparr>;
             landedOnBench =
               (jv < 0 \<and>
                list_ex (\<lambda>item. over_bench item pos \<and> vy pos \<le> 3 \<and> vy pos > 2) (furniture s))
         in if landedOnBench then
              s\<lparr>camera_position := pos\<lparr>vy := 3\<rparr>, isJumping := False, canJump := True,
                jumpVelocity := 0\<rparr>
            else if vy pos \<le> 2 then
              s\<lparr>camera_position := pos\<lparr>vy := 2\<rparr>, isJumping := False, canJump := True,
                jumpVelocity := 0\<rparr>
            else s\<lparr>camera_position := pos, jumpVelocity := jv\<rparr>)
      else if vy (camera_position s) > 2 then
        (let onBench = list_ex (\<lambda>item. over_bench item (camera_position s)) (furniture s)
         in if onBench then s else s\<lparr>isJumping := True, jumpVelocity := 0\<rparr>)
      else s)"

text \<open>
  The candidate position of a tick, displaced along the axes of the room by the
  direction of the keys, and the test of the walls inset by 1.
\<close>

definition candidate_position :: "real \<Rightarrow> vector3 \<Rightarrow> world \<Rightarrow> vector3" where
  "candidate_position delta dir s =
     (let speed = 50.0;
          cam = camera_position s;
          n1 = (if moveForward s \<or> moveBackward s
                then cam\<lparr>vz := vz cam - vz dir * speed * delta\<rparr> else cam)
      in if moveLeft s \<or> moveRight s
         then n1\<lparr>vx := vx n1 - vx dir * speed * delta\<rparr> else n1)"

definition wall_collision :: "vector3 \<Rightarrow> bool" where
  "wall_collision newPosition =
     (vx newPosition < - ROOM_WIDTH / 2 + 1 \<or>
      vx newPosition > ROOM_WIDTH / 2 - 1 \<or>
      vz newPosition < - ROOM_LENGTH / 2 + 1 \<or>
      vz newPosition > ROOM_LENGTH / 2 - 1)"

definition horizontal_step :: "real \<Rightarrow> world \<Rightarrow> world" where
  "horizontal_step delta s0 =
     (let dir = normalize ((direction s0)
                  \<lparr>vz := of_bool (moveForward s0) - of_bool (moveBackward s0),
                   vx := of_bool (moveRight s0) - of_bool (moveLeft s0)\<rparr>);
          s = s0\<lparr>direction := dir\<rparr>;
          speed = 50.0;
          cam = camera_position s;
          newPosition = candidate_position delta dir s;
          hasWallCollision = wall_collision newPosition;
          hasFurnitureCollision = checkFurnitureCollision (furniture s) newPosition
      in if \<not> hasWallCollision \<and> \<not> hasFurnitureCollision then
           (let v1 = (if moveForward s \<or> moveBackward s
                      then (velocity s)\<lparr>vz := vz (velocity s) - vz dir * speed * delta\<rparr>
                      else velocity s);
                v2 = (if moveLeft s \<or> moveRight s
                      then v1\<lparr>vx := vx v1 - vx dir * speed * delta\<rparr> else v1);
                s1 = s\<lparr>velocity := v2\<rparr>
            in controls_moveForward (- vz v2 * delta) (controls_moveRight (- vx v2 * delta) s1))
         else
           (let slidePositionX = cam\<lparr>vx := vx newPosition\<rparr>;
                slidePositionZ = cam\<lparr>vz := vz newPosition\<rparr>;
                s1 = (if (moveForward s \<or> moveBackward s) \<and>
                         \<not> checkFurnitureCollision (furniture s) slidePositionX \<and>
                         vx slidePositionX \<ge> - ROOM_WIDTH / 2 + 1 \<and>
                         vx slidePositionX \<le> ROOM_WIDTH / 2 - 1
                      then controls_moveRight (- vx (velocity s) * delta) s else s)
            in if (moveLeft s \<or> moveRight s) \<and>
                  \<not> checkFurnitureCollision (furniture s) slidePositionZ \<and>
                  vz slidePositionZ \<ge> - ROOM_LENGTH / 2 + 1 \<and>
                  vz slidePositionZ \<le> ROOM_LENGTH / 2 - 1
               then controls_moveForward (- vz (velocity s) * delta) s1 else s1))"

definition movement :: "real \<Rightarrow> world \<Rightarrow> world" where
  "movement delta s = horizontal_step delta (jump_step delta (damp_velocity delta s))"

text \<open>
  One tick of \<open>animate\<close>; \<open>delta\<close> is the time since the previous tick, in seconds.
\<close>

definition animate :: "real \<Rightarrow> world \<Rightarrow> world" where
  "animate delta s =
     (let s1 = watchdog s
      in if controls_isLocked s1 \<and> \<not> isZooming s1 then movement delta s1 else s1)"

section \<open>The artwork selection heuristic\<close>

text \<open>
  \<open>findNearestArtwork\<close>. The camera's position and its world direction (the library's
  \<open>getWorldDirection\<close>) are arguments. The guard on the dimensions comes first; an
  artwork that passes the tests of distance and angle gets a score, any other gets none.
\<close>

definition undefined_dimension :: "artwork \<Rightarrow> bool" where
  "undefined_dimension artwork = (awidth artwork = None \<or> aheight artwork = None)"

definition artwork_score :: "vector3 \<Rightarrow> vector3 \<Rightarrow> artwork \<Rightarrow> real option" where
  "artwork_score cameraPosition cameraDirection artwork =
     (if undefined_dimension artwork then None
      else case (awidth artwork, aheight artwork) of
        (Some w, Some h) \<Rightarrow>
          (let artworkPosition = gposition (agroup artwork);
               distance = distanceTo cameraPosition artworkPosition;
               sizeBasedThreshold = max w h * 3;
               maxDistance = max 10 sizeBasedThreshold
           in if distance < maxDistance then
                (let toArtwork = normalize (sub artworkPosition cameraPosition);
                     angle = angleTo cameraDirection toArtwork;
                     sizeAdjustedAngleThreshold = pi / 4 * (1 + min w h / 5)
                 in if angle < sizeAdjustedAngleThreshold then
                      (let artworkSize = max w h
                       in Some ((1 - angle / pi) * 10 + (maxDistance - distance) + artworkSize))
                    else None)
              else None)
      | _ \<Rightarrow> None)"

text \<open>
  The \<open>forEach\<close> with its two accumulators; \<open>bestScore = None\<close> is the initial
  \<open>-Infinity\<close>, below every score.
\<close>

fun scan_artworks ::
  "vector3 \<Rightarrow> vector3 \<Rightarrow> artwork list \<Rightarrow> artwork option \<Rightarrow> real option \<Rightarrow> artwork option" where
  "scan_artworks cp cd [] nearestArtwork bestScore = nearestArtwork"
| "scan_artworks cp cd (artwork # rest) nearestArtwork bestScore =
     (case artwork_score cp cd artwork of
        None \<Rightarrow> scan_artworks cp cd rest nearestArtwork bestScore
      | Some score \<Rightarrow>
          if (case bestScore of None \<Rightarrow> True | Some b \<Rightarrow> score > b)
          then scan_artworks cp cd rest (Some artwork) (Some score)
          else scan_artworks cp cd rest nearestArtwork bestScore)"

definition findNearestArtwork :: "vector3 \<Rightarrow> vector3 \<Rightarrow> artwork list \<Rightarrow> artwork option" where
  "findNearestArtwork cameraPosition cameraDirection arts =
     scan_artworks cameraPosition cameraDirection arts None None"

text \<open>
  The selection as the specification words it (section 4.4), for comparison: the size,
  the distance and angle limits beyond which a loaded artwork is skipped, the score, and
  the first candidate of maximum score in scan order.
\<close>

definition spec_size :: "artwork \<Rightarrow> real" where
  "spec_size a = (case (awidth a, aheight a) of (Some w, Some h) \<Rightarrow> max w h | _ \<Rightarrow> 0)"

definition spec_small_side :: "artwork \<Rightarrow> real" where
  "spec_small_side a = (case (awidth a, aheight a) of (Some w, Some h) \<Rightarrow> min w h | _ \<Rightarrow> 0)"

definition spec_loaded :: "artwork \<Rightarrow> bool" where
  "spec_loaded a = (case (awidth a, aheight a) of (Some w, Some h) \<Rightarrow> True | _ \<Rightarrow> False)"

definition spec_distance :: "vector3 \<Rightarrow> artwork \<Rightarrow> real" where
  "spec_distance cp a = distanceTo cp (gposition (agroup a))"

definition spec_maxDistance :: "artwork \<Rightarrow> real" where
  "spec_maxDistance a = max 10 (spec_size a * 3)"

definition spec_angle :: "vector3 \<Rightarrow> vector3 \<Rightarrow> artwork \<Rightarrow> real" where
  "spec_angle cp cd a = angleTo cd (normalize (sub (gposition (agroup a)) cp))"

definition spec_candidate :: "vector3 \<Rightarrow> vector3 \<Rightarrow> artwork \<Rightarrow> bool" where
  "spec_candidate cp cd a =
     (spec_loaded a \<and> \<not> spec_distance cp a \<ge> spec_maxDistance a \<and>
      \<not> spec_angle cp cd a \<ge> pi / 4 * (1 + spec_small_side a / 5))"

definition spec_score :: "vector3 \<Rightarrow> vector3 \<Rightarrow> artwork \<Rightarrow> real" where
  "spec_score cp cd a =
     (1 - spec_angle cp cd a / pi) * 10 + (spec_maxDistance a - spec_distance cp a) + spec_size a"

definition selectFocusTarget :: "vector3 \<Rightarrow> vector3 \<Rightarrow> artwork list \<Rightarrow> artwork option" where
  "selectFocusTarget cp cd arts =
     (let candidates = filter (spec_candidate cp cd) arts
      in find (\<lambda>a. list_all (\<lambda>b. spec_score cp cd b \<le> spec_score cp cd a) candidates)
           candidates)"

section \<open>The artwork registry\<close>

text \<open>
  \<open>createArtworks\<close> starts one texture load per entry of \<open>imagePaths\<close>; the callback of
  a completed load builds the entry and pushes it. Four descriptions end in emoji in the
  source; a string here is a list of ASCII characters, so those are left out. Reading a
  property of a missing table entry throws a \<open>TypeError\<close>. The division by an image
  height of 0, which gives an infinity or NaN in JavaScript, is outside the model.
\<close>

datatype js_error = TypeError

definition imagePaths :: "string list" where
  "imagePaths =
     [''images/img1.jpg'', ''images/img2.jpg'', ''images/img3.jpg'', ''images/img4.jpg'',
      ''images/img5.jpg'', ''images/img6.jpg'', ''images/img7.jpg'', ''images/img8.jpg'',
      ''images/img9.jpg'', ''images/img10.jpg'', ''images/img11.jpg'']"

definition artworkInfo :: "(string \<times> string) list" where
  "artworkInfo =
     [(''3-1-25'', ''We are going to rezz every time.''),
      (''10-19-24'', ''Your laugh is my favorite sound in the world. I fall more in love with you every day.''),
      (''10-12-24'', ''First rave togetherrrrr. I love you happy birthday sweet 21.''),
      (''9-23-24'', ''Are you a high-resolution camera? Because every time I see you, you make my world ultra HD.''),
      (''10-26-24'', ''Are you Remy? Because you've taken control of my heart just like you took control of Linguini!''),
      (''12-31-24'', ''Miles of road, music playing, and your hand in mine. I'd drive anywhere as long as you're by my side.''),
      (''2-14-25'', ''Your cuddles are the best part of my day.''),
      (''8-11-24'', ''Are you a squat rack? Because I can't resist getting under you.''),
      (''idk the date'', ''Sunshine, sandwiches, and your sweet kisses. Simple joys become treasures when I'm with you. You're the cherry on top of my life.''),
      (''10-13-24'', ''Are you my remedy? Because in the chaos of life, you're the clarity that keeps me sane.''),
      (''2-14-25'', ''Thank you for sharing your heart with me. I promise to cherish it always. Forever yours.'')]"

definition artworkPositions :: "(vector3 \<times> real) list" where
  "artworkPositions =
     [(vec (- ROOM_WIDTH / 2 + 0.2) (ROOM_HEIGHT / 2) (- 10), pi / 2),
      (vec (- ROOM_WIDTH / 2 + 0.2) (ROOM_HEIGHT / 2) 0, pi / 2),
      (vec (- ROOM_WIDTH / 2 + 0.2) (ROOM_HEIGHT / 2) 10, pi / 2),
      (vec (ROOM_WIDTH / 2 - 0.2) (ROOM_HEIGHT / 2) (- 10), - pi / 2),
      (vec (ROOM_WIDTH / 2 - 0.2) (ROOM_HEIGHT / 2) 0, - pi / 2),
      (vec (ROOM_WIDTH / 2 - 0.2) (ROOM_HEIGHT / 2) 10, - pi / 2),
      (vec (- 15) (ROOM_HEIGHT / 2) (- ROOM_LENGTH / 2 + 0.2), 0),
      (vec (- 5) (ROOM_HEIGHT / 2) (- ROOM_LENGTH / 2 + 0.2), 0),
      (vec 5 (ROOM_HEIGHT / 2) (- ROOM_LENGTH / 2 + 0.2), 0),
      (vec 15 (ROOM_HEIGHT / 2) (- ROOM_LENGTH / 2 + 0.2), 0),
      (vec 0 (ROOM_HEIGHT / 2) (ROOM_LENGTH / 2 - 0.2), pi)]"

fun lookup :: "'a list \<Rightarrow> nat \<Rightarrow> 'a option" where
  "lookup [] i = None"
| "lookup (x # xs) 0 = Some x"
| "lookup (x # xs) (Suc i) = lookup xs i"

text \<open>
  The callback for the load of index \<open>index\<close>, given the dimensions of the image.
\<close>

definition texture_loaded :: "nat \<Rightarrow> real \<Rightarrow> real \<Rightarrow> js_error + artwork" where
  "texture_loaded index imageWidth imageHeight =
     (let aspectRatio = imageWidth / imageHeight;
          artworkWidth = (if aspectRatio \<ge> 1 then min MAX_ARTWORK_DIMENSION 4
                          else min MAX_ARTWORK_DIMENSION 4 * aspectRatio);
          artworkHeight = (if aspectRatio \<ge> 1 then artworkWidth / aspectRatio
                           else min MAX_ARTWORK_DIMENSION 4)
      in case (lookup imagePaths index, lookup artworkPositions index, lookup artworkInfo index) of
           (Some path, Some pos, Some info) \<Rightarrow>
             Inr \<lparr>agroup = \<lparr>gposition = fst pos, grotation_y = snd pos\<rparr>,
                  originalPosition = fst pos, isZoomed = False, imagePath = path,
                  atitle = Some (fst info), adescription = Some (snd info),
                  awidth = Some artworkWidth, aheight = Some artworkHeight\<rparr>
         | _ \<Rightarrow> Inl TypeError)"

text \<open>
  The registry after a sequence of completed loads, in their order of completion. A load
  exists only for an index of \<open>imagePaths\<close>; a callback that throws pushes nothing.
\<close>

fun createArtworks :: "(nat \<times> real \<times> real) list \<Rightarrow> artwork list \<Rightarrow> artwork list" where
  "createArtworks [] arts = arts"
| "createArtworks ((index, imageWidth, imageHeight) # loads) arts =
     (if index < length imagePaths then
        (case texture_loaded index imageWidth imageHeight of
           Inr artwork \<Rightarrow> createArtworks loads (arts @ [artwork])
         | Inl e \<Rightarrow> createArtworks loads arts)
      else createArtworks loads arts)"

definition fully_populated :: "artwork \<Rightarrow> bool" where
  "fully_populated a =
     (awidth a \<noteq> None \<and> aheight a \<noteq> None \<and> atitle a \<noteq> None \<and> adescription a \<noteq> None)"

section \<open>Reference predicates and sample states\<close>

text \<open>
  An angle is a quarter turn when it is a whole multiple of 90 degrees: the two
  orientation classes the specification speaks of, axis-aligned and rotated by 90
  degrees.
\<close>

definition quarter_turn :: "real \<Rightarrow> bool" where
  "quarter_turn a = (\<exists>k::int. a = of_int k * (pi / 2))"

definition swap_xz :: "vector3 \<Rightarrow> vector3" where
  "swap_xz d = vec (vz d) (vy d) (vx d)"

text \<open>Concrete states and artworks on which the theorems below are instantiated.\<close>

definition sample_artwork :: "real \<Rightarrow> artwork" where
  "sample_artwork d =
     \<lparr>agroup = \<lparr>gposition = vec 0 0 (- d), grotation_y = 0\<rparr>, originalPosition = vec 0 0 (- d),
      isZoomed = False, imagePath = ''images/img1.jpg'', atitle = Some ''3-1-25'',
      adescription = Some ''We are going to rezz every time.'',
      awidth = Some 4, aheight = Some 3\<rparr>"

definition level_look :: "vector3 \<Rightarrow> vector3 \<Rightarrow> euler" where
  "level_look eye target = \<lparr>ex = 0, ey = 0, ez = 0\<rparr>"

definition standing_free :: world where
  "standing_free = (init_world (\<lambda>i. 0))\<lparr>camera_position := vec 5 2 5\<rparr>"

definition focused_sample :: world where
  "focused_sample =
     (init_world (\<lambda>i. 0))\<lparr>camera_position := vec 0 2 (- 13.5),
                           isZooming := True,
                           originalCameraPosition := Some (vec 0 2 0),
                           originalCameraRotation := Some \<lparr>ex = 0, ey = 0, ez = 0\<rparr>,
                           info_display := True\<rparr>"



definition facing_front_wall :: world where
  "facing_front_wall =
     (init_world (\<lambda>i. 0))\<lparr>camera_position := vec 0 2 13.99,
                           camera_rotation := \<lparr>ex = 0, ey = pi, ez = 0\<rparr>,
                           moveForward := True,
                           controls_isLocked := True\<rparr>"

definition facing_bench :: world where
  "facing_bench = facing_front_wall\<lparr>camera_position := vec 0 2 6.44\<rparr>"

section \<open>Properties of the collision engine\<close>

text \<open>
  The branch for a player standing on a bench (height within 0.1 of 3) comes after the
  test \<open>playerHeight > benchTotalHeight + 1.0\<close>, that is after \<open>playerHeight > 2\<close>: a
  height that close to 3 has already returned, so the branch never decides.
\<close>

lemma bench_above_two_never_blocks:
  "ftype item = Bench \<Longrightarrow> 2 < vy p \<Longrightarrow> check_item item p \<noteq> Some True"
  by (simp add: check_item_def Let_def)

text \<open>
  C2: the spec's bench at the origin, footprint (4, 1, 1.5), rotation 0. The code blocks
  the walker at height 1 over the bench, lets a camera at height 4.5 pass, and lets a
  camera at height 3 pass at (1.9, 0.6); at height 3 and (1.95, 0.7), outside the shrunk
  top surface and inside the outer bound, the spec says blocked and the code answers
  not blocked.
\<close>

theorem bench_at_origin_verdicts:
  "checkFurnitureCollision [createBench 0 0 0] (vec 0 1 0.5) = True \<and>
   checkFurnitureCollision [createBench 0 0 0] (vec 0 4.5 0.5) = False \<and>
   checkFurnitureCollision [createBench 0 0 0] (vec 1.9 3 0.6) = False \<and>
   checkFurnitureCollision [createBench 0 0 0] (vec 1.95 3 0.7) = False"
  by (simp add: check_item_def item_bounds_def createBench_def vec_def)

text \<open>
  The branch of the loop for an item that is not a bench: it returns true when the
  position overlaps the footprint widened by 0.3 on each side and goes on to the next
  item otherwise, without reading the height. So far the branch does what the
  specification asks of such an item; the statement covers the item alone, or first in
  the list.
\<close>

lemma non_bench_item_verdict:
  assumes "ftype item \<noteq> Bench"
  shows "check_item item p =
           (if \<bar>vx p - vx (fposition item)\<bar> < vx (dimensions item) / 2 + 0.3 \<and>
               \<bar>vz p - vz (fposition item)\<bar> < vz (dimensions item) / 2 + 0.3
            then Some True else None) \<and>
         checkFurnitureCollision [item] p =
           (\<bar>vx p - vx (fposition item)\<bar> < vx (dimensions item) / 2 + 0.3 \<and>
            \<bar>vz p - vz (fposition item)\<bar> < vz (dimensions item) / 2 + 0.3) \<and>
         check_item item (p\<lparr>vy := h\<rparr>) = check_item item p \<and>
         checkFurnitureCollision (item # rest) (p\<lparr>vy := h\<rparr>) =
           (checkFurnitureCollision [item] p \<or> checkFurnitureCollision rest (p\<lparr>vy := h\<rparr>))"
  using assms by (simp add: check_item_def item_bounds_def Let_def)

lemma non_bench_item_verdict_example:
  "ftype (createPlanter 0 0) \<noteq> Bench \<and>
   checkFurnitureCollision [createPlanter 0 0] (vec 1.2 2 (- 1.2)) = True \<and>
   checkFurnitureCollision [createPlanter 0 0] (vec 1.3 2 0) = False \<and>
   check_item (createPlanter 0 0) ((vec 1.2 2 (- 1.2))\<lparr>vy := 5\<rparr>) = Some True"
proof -
  have nb: "ftype (createPlanter 0 0) \<noteq> Bench"
    by (simp add: createPlanter_def)
  show ?thesis
    using nb
      non_bench_item_verdict[OF nb, where p = "vec 1.2 2 (- 1.2)" and h = 5]
      non_bench_item_verdict[OF nb, where p = "vec 1.3 2 0"]
    by (simp add: createPlanter_def vec_def)
qed


section \<open>Rotation in the furniture registry\<close>

lemma eighth_turn_not_quarter: "\<not> quarter_turn (pi / 4)"
proof
  assume "quarter_turn (pi / 4)"
  then obtain k :: int where k: "pi / 4 = of_int k * (pi / 2)"
    by (auto simp: quarter_turn_def)
  have "pi * 1 = pi * (2 * of_int k)"
    using k by (simp add: field_simps)
  then have "(1::real) = 2 * of_int k"
    using pi_neq_zero mult_cancel_left by blast
  then have "(1::int) = 2 * k"
    by (metis of_int_1 of_int_eq_iff of_int_mult of_int_numeral)
  then show False by presburger
qed

lemma gift_angle_range:
  assumes "0 \<le> r" and "r < 1"
  shows "0 \<le> r * pi / 2 \<and> r * pi / 2 < pi / 2"
proof -
  have "r * pi < 1 * pi"
    using assms(2) pi_gt_zero by (simp only: mult_strict_right_mono)
  moreover have "0 \<le> r * pi"
    using assms(1) pi_ge_zero by simp
  ultimately show ?thesis by simp
qed

lemma scene_rotations:
  assumes "\<forall>i. 0 \<le> rnd i \<and> rnd i < 1" and "it \<in> set (scene_furniture rnd)"
  shows "case rotation it of
           None \<Rightarrow> ftype it = Planter
         | Some a \<Rightarrow> ftype it \<noteq> Planter \<and> 0 \<le> a \<and> a < pi / 2 \<and> (ftype it = Bench \<longrightarrow> a = 0)"
proof -
  have g: "\<And>i. 0 \<le> rnd i * pi / 2 \<and> rnd i * pi / 2 < pi / 2"
    using assms(1) gift_angle_range by blast
  have "it \<in> set scene_planters \<or> it \<in> set scene_benches \<or> it \<in> set createBalloons
          \<or> it \<in> set (createGiftBoxes rnd)"
    using assms(2) by (auto simp: scene_furniture_def)
  then show ?thesis
  proof (elim disjE)
    assume "it \<in> set scene_planters"
    then show ?thesis by (auto simp: scene_planters_def createPlanter_def)
  next
    assume "it \<in> set scene_benches"
    then show ?thesis by (auto simp: scene_benches_def createBench_def)
  next
    assume "it \<in> set createBalloons"
    then show ?thesis by (auto simp: createBalloons_def createBalloonGroup_def)
  next
    assume "it \<in> set (createGiftBoxes rnd)"
    then obtain i x y z w h d where "it = createGiftBox x y z w h d (rnd i)"
      by (auto simp: createGiftBoxes_def)
    then show ?thesis using g[of i] by (simp add: createGiftBox_def)
  qed
qed

lemma rotation_only_swaps:
  "check_item (it\<lparr>rotation := r\<rparr>) p =
     check_item (if ftype it = Bench \<and> r \<noteq> Some 0
                 then it\<lparr>dimensions := swap_xz (dimensions it), rotation := Some 0\<rparr>
                 else it\<lparr>rotation := Some 0\<rparr>) p"
  by (simp add: check_item_def item_bounds_def swap_xz_def vec_def Let_def)


text \<open>
  C9, as the specification states it: every entry of the furniture registry has a
  rotation in the axis-aligned or the rotated-90-degrees class. A gift box is turned by
  a random angle between 0 and 90 degrees: with the random number 1/2 the first gift box
  of the scene is turned by 45 degrees, which is not a multiple of 90 degrees.
\<close>

theorem gift_box_rotation_not_quarter_turn:
  "createGiftBox (- ROOM_WIDTH / 3) 0 (- ROOM_LENGTH / 3) 0.8 0.5 0.8 (1 / 2)
     \<in> set (scene_furniture (\<lambda>i. 1 / 2)) \<and>
   rotation (createGiftBox (- ROOM_WIDTH / 3) 0 (- ROOM_LENGTH / 3) 0.8 0.5 0.8 (1 / 2))
     = Some (pi / 4) \<and>
   \<not> quarter_turn (pi / 4)"
  using eighth_turn_not_quarter
  by (simp add: scene_furniture_def createGiftBoxes_def createGiftBox_def)

text \<open>
  C9, amended: in the registry of the scene a planter has no rotation, every other entry
  has a rotation from 0 up to, and not including, 90 degrees, and a bench has rotation
  0. The collision engine uses the rotation of an item only to exchange the x and z
  extents of a bench whose rotation is not 0: the verdict on an item with rotation \<open>r\<close>
  is the verdict on the same item with rotation 0, its extents exchanged when it is a
  bench and \<open>r\<close> is not 0.
\<close>

theorem rotation_classes_and_use:
  assumes "\<forall>i. 0 \<le> rnd i \<and> rnd i < 1"
  shows "(\<forall>it \<in> set (scene_furniture rnd).
            case rotation it of
              None \<Rightarrow> ftype it = Planter
            | Some a \<Rightarrow> ftype it \<noteq> Planter \<and> 0 \<le> a \<and> a < pi / 2 \<and>
                        (ftype it = Bench \<longrightarrow> a = 0)) \<and>
         check_item (item\<lparr>rotation := r\<rparr>) p =
           check_item (if ftype item = Bench \<and> r \<noteq> Some 0
                       then item\<lparr>dimensions := swap_xz (dimensions item), rotation := Some 0\<rparr>
                       else item\<lparr>rotation := Some 0\<rparr>) p"
  using scene_rotations[OF assms] rotation_only_swaps[where it = item and r = r and p = p] by blast

theorem rotation_classes_and_use_witness:
  "(0::real) \<le> 1 / 2 \<and> (1 / 2 :: real) < 1 \<and>
   createGiftBox 0 0 (ROOM_LENGTH / 3) 0.9 0.4 0.6 (1 / 2) \<in> set (scene_furniture (\<lambda>i. 1 / 2)) \<and>
   (case rotation (createGiftBox 0 0 (ROOM_LENGTH / 3) 0.9 0.4 0.6 (1 / 2)) of
      None \<Rightarrow> False | Some a \<Rightarrow> 0 \<le> a \<and> a < pi / 2) \<and>
   check_item ((createBench 0 0 0)\<lparr>rotation := Some (pi / 2)\<rparr>) (vec 0.9 1 2.2) = Some True \<and>
   check_item (createBench 0 0 0) (vec 0.9 1 2.2) = None"
proof -
  have h: "\<forall>i::nat. (0::real) \<le> 1 / 2 \<and> (1 / 2 :: real) < 1"
    by simp
  have m: "createGiftBox 0 0 (ROOM_LENGTH / 3) 0.9 0.4 0.6 (1 / 2)
      \<in> set (scene_furniture (\<lambda>i. 1 / 2))"
    by (simp add: scene_furniture_def createGiftBoxes_def)
  note t = rotation_classes_and_use[OF h, where item = "createBench 0 0 0"
      and r = "Some (pi / 2)" and p = "vec 0.9 1 2.2"]
  from t m have g: "case rotation (createGiftBox 0 0 (ROOM_LENGTH / 3) 0.9 0.4 0.6 (1 / 2)) of
      None \<Rightarrow> False | Some a \<Rightarrow> 0 \<le> a \<and> a < pi / 2"
    by (auto simp: createGiftBox_def split: option.splits)
  from t have s: "check_item ((createBench 0 0 0)\<lparr>rotation := Some (pi / 2)\<rparr>) (vec 0.9 1 2.2)
      = Some True"
    by (simp add: createBench_def check_item_def item_bounds_def swap_xz_def vec_def)
  have u: "check_item (createBench 0 0 0) (vec 0.9 1 2.2) = None"
    by (simp add: createBench_def check_item_def item_bounds_def vec_def)
  show ?thesis using h m g s u by simp
qed

section \<open>The focus controller and the watchdog\<close>

lemma clamp_inside: "lo < (x::real) \<Longrightarrow> x < hi \<Longrightarrow> max lo (min hi x) = x"
  by simp

lemma vec_eta: "vec (vx p) (vy p) (vz p) = p"
  by (simp add: vec_def)

lemma clamp_range: "lo \<le> hi \<Longrightarrow> lo \<le> max lo (min hi (x::real)) \<and> max lo (min hi x) \<le> hi"
  by simp

lemma zoom_enters:
  assumes "\<not> isZooming s" and "awidth a = Some w" and "aheight a = Some h"
  shows "\<exists>s1. zoomToArtwork lookAt a s = Some s1 \<and> isZooming s1 \<and>
           \<not> controls_isLocked s1 \<and> furniture s1 = furniture s \<and>
           originalCameraPosition s1 = Some (camera_position s) \<and>
           originalCameraRotation s1 = Some (camera_rotation s) \<and>
           - ROOM_WIDTH / 2 + 1.5 \<le> vx (camera_position s1) \<and>
           vx (camera_position s1) \<le> ROOM_WIDTH / 2 - 1.5 \<and>
           - ROOM_LENGTH / 2 + 1.5 \<le> vz (camera_position s1) \<and>
           vz (camera_position s1) \<le> ROOM_LENGTH / 2 - 1.5 \<and>
           vy (camera_position s1) = ROOM_HEIGHT / 2 - 1"
proof -
  have w: "- ROOM_WIDTH / 2 + 1.5 \<le> ROOM_WIDTH / 2 - 1.5"
    by (simp add: ROOM_WIDTH_def)
  have l: "- ROOM_LENGTH / 2 + 1.5 \<le> ROOM_LENGTH / 2 - 1.5"
    by (simp add: ROOM_LENGTH_def)
  show ?thesis
    using assms clamp_range[OF w] clamp_range[OF l]
    by (simp add: zoomToArtwork_def Let_def vec_def)
qed

lemma reset_restores:
  assumes "originalCameraPosition s1 = Some p" and "originalCameraRotation s1 = Some r"
    and "- ROOM_WIDTH / 2 + 1 < vx p" and "vx p < ROOM_WIDTH / 2 - 1"
    and "- ROOM_LENGTH / 2 + 1 < vz p" and "vz p < ROOM_LENGTH / 2 - 1"
    and "2 \<le> vy p"
    and "\<not> checkFurnitureCollision (furniture s1) p"
  shows "camera_position (resetZoom s1) = p \<and> camera_rotation (resetZoom s1) = r \<and>
         \<not> isZooming (resetZoom s1)"
proof -
  have "max (- ROOM_WIDTH / 2 + 1) (min (ROOM_WIDTH / 2 - 1) (vx p)) = vx p"
    using assms(3,4) by (rule clamp_inside)
  moreover have "max (- ROOM_LENGTH / 2 + 1) (min (ROOM_LENGTH / 2 - 1) (vz p)) = vz p"
    using assms(5,6) by (rule clamp_inside)
  moreover have "max 2 (vy p) = vy p"
    using assms(7) by simp
  ultimately show ?thesis
    using assms(1,2,8) by (simp add: resetZoom_def vec_eta)
qed

lemma focused_tick_idle:
  assumes "isZooming s1" and "\<not> controls_isLocked s1"
    and "- ROOM_WIDTH / 2 + 1.5 \<le> vx (camera_position s1)"
    and "vx (camera_position s1) \<le> ROOM_WIDTH / 2 - 1.5"
    and "- ROOM_LENGTH / 2 + 1.5 \<le> vz (camera_position s1)"
    and "vz (camera_position s1) \<le> ROOM_LENGTH / 2 - 1.5"
  shows "\<not> watchdog_triggered s1 \<and> animate delta s1 = s1"
  using assms
  by (simp add: animate_def watchdog_def watchdog_triggered_def ROOM_WIDTH_def ROOM_LENGTH_def)

lemmas scene_defs =
  scene_furniture_def scene_planters_def scene_benches_def createBalloons_def
  createGiftBoxes_def createPlanter_def createBench_def createBalloonGroup_def
  createGiftBox_def check_item_def item_bounds_def vec_def ROOM_WIDTH_def ROOM_LENGTH_def

lemma scene_clear_visitor:
  "checkFurnitureCollision (scene_furniture rnd) \<lparr>vx = 5, vy = 2, vz = 5\<rparr> = False"
  by (simp add: scene_defs)

lemma standing_free_facts:
  "isZooming standing_free = False"
  "camera_position standing_free = \<lparr>vx = 5, vy = 2, vz = 5\<rparr>"
  "camera_rotation standing_free = \<lparr>ex = 0, ey = 0, ez = 0\<rparr>"
  "furniture standing_free = scene_furniture (\<lambda>i. 0)"
  "originalCameraPosition standing_free = None"
  "originalCameraRotation standing_free = None"
  by (simp_all add: standing_free_def init_world_def vec_def)

lemma sample_artwork_loaded:
  "awidth (sample_artwork d) = Some 4" "aheight (sample_artwork d) = Some 3"
  by (simp_all add: sample_artwork_def)

text \<open>
  C7: a request to enter the focus mode while a focus session is active returns at
  once and leaves the whole state as it is: camera pose, saved pose, focus flag and
  panel. So of two requests in a row the second has no effect.
\<close>

theorem zoomToArtwork_idempotent:
  "(isZooming s \<longrightarrow> zoomToArtwork lookAt a s = Some s) \<and>
   (\<not> isZooming s \<and> zoomToArtwork lookAt a s = Some s1
      \<longrightarrow> zoomToArtwork lookAt' b s1 = Some s1)"
proof -
  have "isZooming s1" if "\<not> isZooming s" and "zoomToArtwork lookAt a s = Some s1"
    using that by (auto simp: zoomToArtwork_def Let_def split: option.splits)
  then show ?thesis by (auto simp: zoomToArtwork_def)
qed

theorem zoomToArtwork_idempotent_witness:
  "isZooming focused_sample \<and>
   zoomToArtwork level_look (sample_artwork 5) focused_sample = Some focused_sample \<and>
   isZooming standing_free = False \<and>
   (\<exists>s1. zoomToArtwork level_look (sample_artwork 5) standing_free = Some s1 \<and>
         zoomToArtwork level_look (sample_artwork 8) s1 = Some s1)"
proof -
  have f: "isZooming focused_sample"
    by (simp add: focused_sample_def)
  have n: "\<not> isZooming standing_free"
    by (simp add: standing_free_facts)
  obtain s1 where z: "zoomToArtwork level_look (sample_artwork 5) standing_free = Some s1"
    using zoom_enters[OF n sample_artwork_loaded, where lookAt = level_look] by blast
  show ?thesis
    using f n z
      zoomToArtwork_idempotent[where s = focused_sample and lookAt = level_look
        and a = "sample_artwork 5"]
      zoomToArtwork_idempotent[where s = standing_free and lookAt = level_look
        and a = "sample_artwork 5" and ?s1.0 = s1 and lookAt' = level_look
        and b = "sample_artwork 8"]
    by simp
qed

text \<open>
  C4: from a camera pose strictly inside the room inset by 1, at height 2 or more, and
  free of furniture, entering the focus mode on a loaded artwork succeeds and saves the
  pose; a tick of the animation loop in between changes nothing; leaving the focus mode
  puts the camera back at exactly that position and rotation.
\<close>

theorem focus_round_trip:
  assumes "\<not> isZooming s"
    and "- ROOM_WIDTH / 2 + 1 < vx (camera_position s)" and "vx (camera_position s) < ROOM_WIDTH / 2 - 1"
    and "- ROOM_LENGTH / 2 + 1 < vz (camera_position s)" and "vz (camera_position s) < ROOM_LENGTH / 2 - 1"
    and "2 \<le> vy (camera_position s)"
    and "\<not> checkFurnitureCollision (furniture s) (camera_position s)"
    and "awidth a = Some w" and "aheight a = Some h"
  shows "\<exists>s1. zoomToArtwork lookAt a s = Some s1 \<and> isZooming s1 \<and>
           originalCameraPosition s1 = Some (camera_position s) \<and>
           originalCameraRotation s1 = Some (camera_rotation s) \<and>
           animate delta s1 = s1 \<and>
           camera_position (resetZoom s1) = camera_position s \<and>
           camera_rotation (resetZoom s1) = camera_rotation s \<and>
           \<not> isZooming (resetZoom s1)"
proof -
  obtain s1 where z: "zoomToArtwork lookAt a s = Some s1" "isZooming s1"
      "\<not> controls_isLocked s1" "furniture s1 = furniture s"
      "originalCameraPosition s1 = Some (camera_position s)"
      "originalCameraRotation s1 = Some (camera_rotation s)"
      "- ROOM_WIDTH / 2 + 1.5 \<le> vx (camera_position s1)"
      "vx (camera_position s1) \<le> ROOM_WIDTH / 2 - 1.5"
      "- ROOM_LENGTH / 2 + 1.5 \<le> vz (camera_position s1)"
      "vz (camera_position s1) \<le> ROOM_LENGTH / 2 - 1.5"
    using zoom_enters[OF assms(1,8,9), of lookAt] by blast
  have idle: "animate delta s1 = s1"
    using focused_tick_idle[OF z(2,3,7,8,9,10)] by simp
  have restored: "camera_position (resetZoom s1) = camera_position s \<and>
      camera_rotation (resetZoom s1) = camera_rotation s \<and> \<not> isZooming (resetZoom s1)"
    using reset_restores[OF z(5,6) assms(2,3,4,5,6)] assms(7) z(4) by simp
  show ?thesis using z(1,2,5,6) idle restored by blast
qed


theorem focus_round_trip_witness:
  "isZooming standing_free = False \<and>
   camera_position standing_free = vec 5 2 5 \<and>
   checkFurnitureCollision (furniture standing_free) (camera_position standing_free) = False \<and>
   (\<exists>s1. zoomToArtwork level_look (sample_artwork 5) standing_free = Some s1 \<and>
         isZooming s1 \<and> animate (1 / 50) s1 = s1 \<and>
         camera_position (resetZoom s1) = vec 5 2 5 \<and>
         camera_rotation (resetZoom s1) = \<lparr>ex = 0, ey = 0, ez = 0\<rparr>)"
proof -
  have n: "\<not> isZooming standing_free"
    by (simp add: standing_free_facts)
  have x: "- ROOM_WIDTH / 2 + 1 < vx (camera_position standing_free)"
      "vx (camera_position standing_free) < ROOM_WIDTH / 2 - 1"
    by (simp_all add: standing_free_facts ROOM_WIDTH_def)
  have z: "- ROOM_LENGTH / 2 + 1 < vz (camera_position standing_free)"
      "vz (camera_position standing_free) < ROOM_LENGTH / 2 - 1"
    by (simp_all add: standing_free_facts ROOM_LENGTH_def)
  have y: "2 \<le> vy (camera_position standing_free)"
    by (simp add: standing_free_facts)
  have c: "\<not> checkFurnitureCollision (furniture standing_free) (camera_position standing_free)"
    by (simp add: standing_free_facts scene_clear_visitor)
  obtain s1 where s1: "zoomToArtwork level_look (sample_artwork 5) standing_free = Some s1"
      "isZooming s1" "animate (1 / 50) s1 = s1"
      "camera_position (resetZoom s1) = camera_position standing_free"
      "camera_rotation (resetZoom s1) = camera_rotation standing_free"
    using focus_round_trip[OF n x z y c sample_artwork_loaded,
        where lookAt = level_look and delta = "1 / 50"]
    by blast
  have "zoomToArtwork level_look (sample_artwork 5) standing_free = Some s1 \<and>
      isZooming s1 \<and> animate (1 / 50) s1 = s1 \<and>
      camera_position (resetZoom s1) = vec 5 2 5 \<and>
      camera_rotation (resetZoom s1) = \<lparr>ex = 0, ey = 0, ez = 0\<rparr>"
    using s1 by (simp add: standing_free_facts vec_def)
  then have "\<exists>s1. zoomToArtwork level_look (sample_artwork 5) standing_free = Some s1 \<and>
      isZooming s1 \<and> animate (1 / 50) s1 = s1 \<and>
      camera_position (resetZoom s1) = vec 5 2 5 \<and>
      camera_rotation (resetZoom s1) = \<lparr>ex = 0, ey = 0, ez = 0\<rparr>"
    by (rule exI)
  then show ?thesis
    using n c by (simp add: standing_free_facts vec_def)
qed

text \<open>
  The condition of the watchdog for a focused camera: the height is not looked at, and
  the watchdog triggers exactly when a horizontal coordinate is more than 5 beyond the
  footprint of the room. \<open>zoomToArtwork\<close> places the camera within 1.5 of the walls,
  so in a focus session that the program starts the watchdog stays silent
  (\<open>focused_tick_idle\<close>).
\<close>

lemma watchdog_condition_while_focused:
  assumes "isZooming s"
  shows "watchdog_triggered s =
           (vx (camera_position s) < - 30 \<or> 30 < vx (camera_position s) \<or>
            vz (camera_position s) < - 20 \<or> 20 < vz (camera_position s)) \<and>
         (- 30 \<le> vx (camera_position s) \<and> vx (camera_position s) \<le> 30 \<and>
          - 20 \<le> vz (camera_position s) \<and> vz (camera_position s) \<le> 20
            \<longrightarrow> watchdog s = s)"
  using assms
  by (auto simp: watchdog_def watchdog_triggered_def ROOM_WIDTH_def ROOM_LENGTH_def)







text \<open>
  C8, as the specification states it: \<open>resetZoom\<close> without a focus session is a no-op.
  With no saved pose the function takes its default branch: a camera standing at
  (5, 2, 5) is put at (0, 2, 0).
\<close>

theorem resetZoom_without_session_moves_camera:
  "isZooming standing_free = False \<and>
   originalCameraPosition standing_free = None \<and>
   originalCameraRotation standing_free = None \<and>
   camera_position standing_free = vec 5 2 5 \<and>
   camera_position (resetZoom standing_free) = vec 0 2 0"
  by (simp add: standing_free_def init_world_def resetZoom_def)

text \<open>
  C8, amended: \<open>resetZoom\<close> with no saved pose puts the camera at the default position
  (0, 2, 0) and leaves its rotation unchanged; the focus flag is false afterwards, the
  pointer lock requested, the panel hidden and the saved pose still empty.
\<close>

theorem resetZoom_without_session:
  assumes "originalCameraPosition s = None" and "originalCameraRotation s = None"
  shows "camera_position (resetZoom s) = vec 0 2 0 \<and>
         camera_rotation (resetZoom s) = camera_rotation s \<and>
         isZooming (resetZoom s) = False \<and>
         controls_isLocked (resetZoom s) \<and>
         info_display (resetZoom s) = False \<and>
         originalCameraPosition (resetZoom s) = None \<and>
         originalCameraRotation (resetZoom s) = None"
  using assms by (simp add: resetZoom_def)

theorem resetZoom_without_session_witness:
  "originalCameraPosition standing_free = None \<and>
   originalCameraRotation standing_free = None \<and>
   camera_position (resetZoom standing_free) = vec 0 2 0 \<and>
   camera_rotation (resetZoom standing_free) = \<lparr>ex = 0, ey = 0, ez = 0\<rparr>"
  using resetZoom_without_session[OF standing_free_facts(5,6)]
  by (simp add: standing_free_facts)

section \<open>The movement controller: what a tick commits\<close>

lemma scene_clear_before_wall:
  "checkFurnitureCollision (scene_furniture rnd) \<lparr>vx = 0, vy = 2, vz = 1299 / 100\<rparr> = False"
  by (simp add: scene_defs)

lemma scene_clear_at_wall:
  "checkFurnitureCollision (scene_furniture rnd) \<lparr>vx = 0, vy = 2, vz = 1399 / 100\<rparr> = False"
  by (simp add: scene_defs)

lemma scene_clear_behind:
  "checkFurnitureCollision (scene_furniture rnd) \<lparr>vx = 0, vy = 2, vz = 136 / 25\<rparr> = False"
  by (simp add: scene_defs)

lemma scene_clear_before_bench:
  "checkFurnitureCollision (scene_furniture rnd) \<lparr>vx = 0, vy = 2, vz = 161 / 25\<rparr> = False"
  by (simp add: scene_defs)

lemma scene_blocked_at_bench:
  "checkFurnitureCollision (scene_furniture rnd) \<lparr>vx = 0, vy = 2, vz = 323 / 50\<rparr> = True"
  by (simp add: scene_defs)

text \<open>
  A camera turned half a turn about the vertical axis has its right-hand direction along
  the negative x axis, whichever of the two Euler triples of that orientation its
  \<open>rotation\<close> holds.
\<close>

lemma half_turn_axes:
  "matrix_column0 \<lparr>ex = 0, ey = pi, ez = 0\<rparr> = \<lparr>vx = - 1, vy = 0, vz = 0\<rparr>"
  by (simp add: matrix_column0_def vec_def)

lemma half_turn_axes_other_triple:
  "matrix_column0 \<lparr>ex = pi, ey = 0, ez = pi\<rparr> = \<lparr>vx = - 1, vy = 0, vz = 0\<rparr>"
  by (simp add: matrix_column0_def vec_def)

lemma forward_unit: "normalize \<lparr>vx = 0, vy = 0, vz = 1\<rparr> = \<lparr>vx = 0, vy = 0, vz = 1\<rparr>"
  by (simp add: normalize_def lengthSq_def vec_def)

lemmas step_defs =
  horizontal_step_def init_world_def Let_def vec_def forward_unit candidate_position_def
  wall_collision_def ROOM_WIDTH_def ROOM_LENGTH_def controls_moveForward_def
  controls_moveRight_def half_turn_axes addScaledVector_def crossVectors_def

lemmas pre_step_defs =
  init_world_def watchdog_def watchdog_triggered_def damp_velocity_def jump_step_def
  vec_def ROOM_WIDTH_def ROOM_LENGTH_def

lemma wall_pre_steps:
  "watchdog facing_front_wall = facing_front_wall"
  "damp_velocity (1 / 50) facing_front_wall = facing_front_wall"
  "jump_step (1 / 50) facing_front_wall = facing_front_wall"
  by (simp_all add: facing_front_wall_def pre_step_defs)

lemma bench_pre_steps:
  "watchdog facing_bench = facing_bench"
  "damp_velocity (1 / 50) facing_bench = facing_bench"
  "jump_step (1 / 50) facing_bench = facing_bench"
  by (simp_all add: facing_bench_def facing_front_wall_def pre_step_defs)

lemma step_through_wall:
  "camera_position (horizontal_step (1 / 50) facing_front_wall) =
     \<lparr>vx = 0, vy = 2, vz = 1401 / 100\<rparr>"
  by (simp add: facing_front_wall_def step_defs scene_clear_before_wall scene_clear_at_wall)

lemma step_into_bench:
  "camera_position (horizontal_step (1 / 50) facing_bench) = \<lparr>vx = 0, vy = 2, vz = 323 / 50\<rparr>"
  by (simp add: facing_bench_def facing_front_wall_def step_defs scene_clear_behind
      scene_clear_before_bench)

lemma tick_is_step:
  "animate (1 / 50) facing_front_wall = horizontal_step (1 / 50) facing_front_wall"
  "animate (1 / 50) facing_bench = horizontal_step (1 / 50) facing_bench"
  by (simp_all add: animate_def movement_def wall_pre_steps bench_pre_steps)
     (simp_all add: facing_bench_def facing_front_wall_def init_world_def)

lemma facing_facts:
  "controls_isLocked facing_front_wall" "isZooming facing_front_wall = False"
  "camera_position facing_front_wall = \<lparr>vx = 0, vy = 2, vz = 1399 / 100\<rparr>"
  "furniture facing_front_wall = scene_furniture (\<lambda>i. 0)"
  "controls_isLocked facing_bench" "isZooming facing_bench = False"
  "camera_position facing_bench = \<lparr>vx = 0, vy = 2, vz = 161 / 25\<rparr>"
  "furniture facing_bench = scene_furniture (\<lambda>i. 0)"
  by (simp_all add: facing_bench_def facing_front_wall_def init_world_def vec_def)

text \<open>
  C1: the movement step should never commit a position that the furniture check blocks
  or that lies beyond the walls inset by 1. The code tests a candidate displaced along
  the axes of the room by 50 times the time step, and then moves the camera along its
  own axes by the velocity times the time step; it never tests the position it commits.
  Two ticks of 1/50 s in the scene, the camera turned half a turn about the vertical
  axis (facing the front wall) with the forward key held and no velocity: from
  (0, 2, 13.99), inside the walls and free, the tick commits (0, 2, 14.01), beyond the
  limit 14; from (0, 2, 6.44), free, the tick commits (0, 2, 6.46), which the furniture
  check blocks at that height (the bench at z = 7.5).
\<close>

theorem movement_commits_unchecked_position:
  "controls_isLocked facing_front_wall \<and> isZooming facing_front_wall = False \<and>
   camera_position facing_front_wall = vec 0 2 13.99 \<and>
   wall_collision (camera_position facing_front_wall) = False \<and>
   checkFurnitureCollision (furniture facing_front_wall) (camera_position facing_front_wall)
     = False \<and>
   camera_position (animate (1 / 50) facing_front_wall) = vec 0 2 14.01 \<and>
   wall_collision (camera_position (animate (1 / 50) facing_front_wall)) = True \<and>
   controls_isLocked facing_bench \<and> isZooming facing_bench = False \<and>
   camera_position facing_bench = vec 0 2 6.44 \<and>
   wall_collision (camera_position facing_bench) = False \<and>
   checkFurnitureCollision (furniture facing_bench) (camera_position facing_bench) = False \<and>
   camera_position (animate (1 / 50) facing_bench) = vec 0 2 6.46 \<and>
   checkFurnitureCollision (furniture (animate (1 / 50) facing_bench))
     (camera_position (animate (1 / 50) facing_bench)) = True"
proof -
  have f: "furniture (horizontal_step (1 / 50) facing_bench) = scene_furniture (\<lambda>i. 0)"
    by (simp add: facing_bench_def facing_front_wall_def step_defs scene_clear_behind
        scene_clear_before_bench)
  show ?thesis
    by (simp add: tick_is_step step_through_wall step_into_bench facing_facts f
        scene_clear_at_wall scene_clear_before_bench scene_blocked_at_bench
        wall_collision_def vec_def ROOM_WIDTH_def ROOM_LENGTH_def)
qed

section \<open>The artwork selection heuristic against its specification\<close>

lemma score_is_spec:
  "artwork_score cp cd a = (if spec_candidate cp cd a then Some (spec_score cp cd a) else None)"
  by (auto simp: artwork_score_def undefined_dimension_def spec_candidate_def spec_score_def
      spec_loaded_def spec_distance_def spec_maxDistance_def spec_angle_def spec_size_def
      spec_small_side_def Let_def split: option.splits)

lemma scan_skips:
  "scan_artworks cp cd arts na bs = scan_artworks cp cd (filter (spec_candidate cp cd) arts) na bs"
  by (induction arts arbitrary: na bs) (simp_all add: score_is_spec)

lemma scan_from_best:
  assumes "list_all (spec_candidate cp cd) cs"
  shows "\<exists>pre post r. a0 # cs = pre @ r # post \<and>
           scan_artworks cp cd cs (Some a0) (Some (spec_score cp cd a0)) = Some r \<and>
           (\<forall>b \<in> set pre. spec_score cp cd b < spec_score cp cd r) \<and>
           (\<forall>b \<in> set post. spec_score cp cd b \<le> spec_score cp cd r)"
  using assms
proof (induction cs arbitrary: a0)
  case Nil
  show ?case by (rule exI[of _ "[]"], rule exI[of _ "[]"], rule exI[of _ a0]) simp
next
  case (Cons c cs)
  then have cand: "spec_candidate cp cd c" and rest: "list_all (spec_candidate cp cd) cs"
    by simp_all
  show ?case
  proof (cases "spec_score cp cd c > spec_score cp cd a0")
    case True
    from Cons.IH[OF rest, of c] obtain pre post r where
      d: "c # cs = pre @ r # post"
      and s: "scan_artworks cp cd cs (Some c) (Some (spec_score cp cd c)) = Some r"
      and lo: "\<forall>b \<in> set pre. spec_score cp cd b < spec_score cp cd r"
      and hi: "\<forall>b \<in> set post. spec_score cp cd b \<le> spec_score cp cd r"
      by blast
    have "spec_score cp cd c \<le> spec_score cp cd r"
    proof (cases pre)
      case Nil
      with d show ?thesis by simp
    next
      case (Cons p ps)
      with d have "c \<in> set pre" by simp
      with lo show ?thesis by fastforce
    qed
    with True have "spec_score cp cd a0 < spec_score cp cd r" by simp
    with lo have lo': "\<forall>b \<in> set (a0 # pre). spec_score cp cd b < spec_score cp cd r"
      by simp
    have "a0 # c # cs = (a0 # pre) @ r # post" using d by simp
    moreover have "scan_artworks cp cd (c # cs) (Some a0) (Some (spec_score cp cd a0)) = Some r"
      using True cand s by (simp add: score_is_spec)
    ultimately show ?thesis using lo' hi by blast
  next
    case False
    from Cons.IH[OF rest, of a0] obtain pre post r where
      d: "a0 # cs = pre @ r # post"
      and s: "scan_artworks cp cd cs (Some a0) (Some (spec_score cp cd a0)) = Some r"
      and lo: "\<forall>b \<in> set pre. spec_score cp cd b < spec_score cp cd r"
      and hi: "\<forall>b \<in> set post. spec_score cp cd b \<le> spec_score cp cd r"
      by blast
    have s': "scan_artworks cp cd (c # cs) (Some a0) (Some (spec_score cp cd a0)) = Some r"
      using False cand s by (simp add: score_is_spec)
    show ?thesis
    proof (cases pre)
      case Nil
      with d have r: "r = a0" and p: "post = cs" by simp_all
      have "a0 # c # cs = [] @ r # (c # post)" using r p by simp
      moreover have "\<forall>b \<in> set (c # post). spec_score cp cd b \<le> spec_score cp cd r"
        using hi False r by auto
      ultimately show ?thesis using s' by (metis empty_iff list.set(1))
    next
      case (Cons p ps)
      with d have p: "p = a0" and cs: "cs = ps @ r # post" by simp_all
      have "spec_score cp cd a0 < spec_score cp cd r" using lo Cons p by simp
      with False have "spec_score cp cd c < spec_score cp cd r" by simp
      with lo Cons p have "\<forall>b \<in> set (a0 # c # ps). spec_score cp cd b < spec_score cp cd r"
        by simp
      moreover have "a0 # c # cs = (a0 # c # ps) @ r # post" using cs by simp
      ultimately show ?thesis using s' hi by blast
    qed
  qed
qed

lemma find_after_failures:
  "(\<forall>a \<in> set pre. \<not> P a) \<Longrightarrow> P r \<Longrightarrow> find P (pre @ r # post) = Some r"
  by (induction pre) simp_all

lemma find_first_max:
  assumes "(\<forall>b \<in> set pre. f b < f r)" and "(\<forall>b \<in> set post. f b \<le> (f r :: real))"
  shows "find (\<lambda>a. list_all (\<lambda>b. f b \<le> f a) (pre @ r # post)) (pre @ r # post) = Some r"
proof (rule find_after_failures)
  show "\<forall>a \<in> set pre. \<not> list_all (\<lambda>b. f b \<le> f a) (pre @ r # post)"
    using assms(1) by (auto simp: list_all_iff)
  show "list_all (\<lambda>b. f b \<le> f r) (pre @ r # post)"
    using assms by (auto simp: list_all_iff less_imp_le)
qed

lemma find_matches_spec:
  "findNearestArtwork cp cd arts = selectFocusTarget cp cd arts"
proof -
  define cs where "cs = filter (spec_candidate cp cd) arts"
  have all: "list_all (spec_candidate cp cd) cs"
    by (simp add: cs_def list_all_iff)
  have "scan_artworks cp cd cs None None =
        find (\<lambda>a. list_all (\<lambda>b. spec_score cp cd b \<le> spec_score cp cd a) cs) cs"
  proof (cases cs)
    case Nil
    then show ?thesis by simp
  next
    case (Cons a0 rest)
    with all have c0: "spec_candidate cp cd a0" and r: "list_all (spec_candidate cp cd) rest"
      by simp_all
    obtain pre post r' where d: "a0 # rest = pre @ r' # post"
      and s: "scan_artworks cp cd rest (Some a0) (Some (spec_score cp cd a0)) = Some r'"
      and lo: "\<forall>b \<in> set pre. spec_score cp cd b < spec_score cp cd r'"
      and hi: "\<forall>b \<in> set post. spec_score cp cd b \<le> spec_score cp cd r'"
      using scan_from_best[OF r, of a0] by blast
    have "scan_artworks cp cd cs None None = Some r'"
      using Cons c0 s by (simp add: score_is_spec)
    moreover have "find (\<lambda>a. list_all (\<lambda>b. spec_score cp cd b \<le> spec_score cp cd a) cs) cs = Some r'"
      using find_first_max[OF lo hi] d Cons by simp
    ultimately show ?thesis by simp
  qed
  then show ?thesis
    unfolding findNearestArtwork_def selectFocusTarget_def Let_def cs_def
    using scan_skips[of cp cd arts None None] by simp
qed

text \<open>
  C5: \<open>findNearestArtwork\<close> computes the selection of the specification: among the
  loaded artworks within the distance and angle limits, the first in scan order whose
  score no other candidate exceeds; none exactly when no candidate remains. For two
  candidates with different scores it returns the one with the higher score in either
  order of the registry.
\<close>

theorem findNearestArtwork_selects_first_maximum:
  "findNearestArtwork cp cd arts = selectFocusTarget cp cd arts \<and>
   (findNearestArtwork cp cd arts = None \<longleftrightarrow> filter (spec_candidate cp cd) arts = []) \<and>
   (spec_candidate cp cd a \<and> spec_candidate cp cd b \<and> spec_score cp cd b < spec_score cp cd a
      \<longrightarrow> findNearestArtwork cp cd [a, b] = Some a \<and> findNearestArtwork cp cd [b, a] = Some a)"
proof -
  have none: "findNearestArtwork cp cd arts = None \<longleftrightarrow> filter (spec_candidate cp cd) arts = []"
  proof (cases "filter (spec_candidate cp cd) arts")
    case Nil
    then show ?thesis by (simp add: find_matches_spec selectFocusTarget_def)
  next
    case (Cons a0 rest)
    have "list_all (spec_candidate cp cd) (filter (spec_candidate cp cd) arts)"
      by (simp add: list_all_iff)
    with Cons have "list_all (spec_candidate cp cd) (a0 # rest)"
      by simp
    then have c0: "spec_candidate cp cd a0" and r: "list_all (spec_candidate cp cd) rest"
      by simp_all
    obtain r' where "scan_artworks cp cd rest (Some a0) (Some (spec_score cp cd a0)) = Some r'"
      using scan_from_best[OF r, of a0] by blast
    then have "findNearestArtwork cp cd arts = Some r'"
      unfolding findNearestArtwork_def using scan_skips[of cp cd arts None None] Cons c0
      by (simp add: score_is_spec)
    then show ?thesis using Cons by simp
  qed
  have two: "spec_candidate cp cd a \<and> spec_candidate cp cd b \<and>
      spec_score cp cd b < spec_score cp cd a
      \<longrightarrow> findNearestArtwork cp cd [a, b] = Some a \<and> findNearestArtwork cp cd [b, a] = Some a"
    by (simp add: findNearestArtwork_def score_is_spec)
  show ?thesis
    using none two find_matches_spec[of cp cd arts] by blast
qed



lemma sqrt_25: "sqrt 25 = 5"
  by (rule real_sqrt_unique) simp_all

lemma sqrt_64: "sqrt 64 = 8"
  by (rule real_sqrt_unique) simp_all

lemma sample_values:
  "spec_candidate (vec 0 0 0) (vec 0 0 (- 1)) (sample_artwork 5)"
  "spec_candidate (vec 0 0 0) (vec 0 0 (- 1)) (sample_artwork 8)"
  "spec_score (vec 0 0 0) (vec 0 0 (- 1)) (sample_artwork 5) = 21"
  "spec_score (vec 0 0 0) (vec 0 0 (- 1)) (sample_artwork 8) = 18"
  by (simp_all add: spec_candidate_def spec_score_def spec_loaded_def spec_distance_def
      spec_maxDistance_def spec_angle_def spec_size_def spec_small_side_def sample_artwork_def
      distanceTo_def angleTo_def normalize_def sub_def lengthSq_def dot_def vec_def
      sqrt_25 sqrt_64 not_le)

theorem findNearestArtwork_selects_first_maximum_witness:
  "spec_candidate (vec 0 0 0) (vec 0 0 (- 1)) (sample_artwork 5) \<and>
   spec_candidate (vec 0 0 0) (vec 0 0 (- 1)) (sample_artwork 8) \<and>
   spec_score (vec 0 0 0) (vec 0 0 (- 1)) (sample_artwork 8)
     < spec_score (vec 0 0 0) (vec 0 0 (- 1)) (sample_artwork 5) \<and>
   findNearestArtwork (vec 0 0 0) (vec 0 0 (- 1)) [sample_artwork 5, sample_artwork 8]
     = Some (sample_artwork 5) \<and>
   findNearestArtwork (vec 0 0 0) (vec 0 0 (- 1)) [sample_artwork 8, sample_artwork 5]
     = Some (sample_artwork 5) \<and>
   selectFocusTarget (vec 0 0 0) (vec 0 0 (- 1)) [sample_artwork 8, sample_artwork 5]
     = Some (sample_artwork 5)"
proof -
  have lt: "spec_score (vec 0 0 0) (vec 0 0 (- 1)) (sample_artwork 8)
      < spec_score (vec 0 0 0) (vec 0 0 (- 1)) (sample_artwork 5)"
    by (simp add: sample_values)
  show ?thesis
    using findNearestArtwork_selects_first_maximum[where cp = "vec 0 0 0"
        and cd = "vec 0 0 (- 1)" and arts = "[sample_artwork 8, sample_artwork 5]"
        and a = "sample_artwork 5" and b = "sample_artwork 8"] sample_values(1,2) lt
    by metis
qed

section \<open>The artwork registry is fully populated\<close>

lemma lookup_in_range: "i < length xs \<Longrightarrow> \<exists>x. lookup xs i = Some x"
  by (induction xs i rule: lookup.induct) simp_all

lemma table_lengths:
  "length imagePaths = 11" "length artworkPositions = 11" "length artworkInfo = 11"
  by (simp_all add: imagePaths_def artworkPositions_def artworkInfo_def)

lemma callback_pushes:
  assumes "index < length imagePaths"
  shows "\<exists>a. texture_loaded index w h = Inr a \<and> fully_populated a"
proof -
  obtain path where 1: "lookup imagePaths index = Some path"
    using lookup_in_range[OF assms] by blast
  obtain pos where 2: "lookup artworkPositions index = Some pos"
    using lookup_in_range[of index artworkPositions] assms by (auto simp: table_lengths)
  obtain info where 3: "lookup artworkInfo index = Some info"
    using lookup_in_range[of index artworkInfo] assms by (auto simp: table_lengths)
  show ?thesis
    by (simp add: texture_loaded_def Let_def 1 2 3 fully_populated_def)
qed

lemma registry_populated:
  "list_all fully_populated arts \<Longrightarrow> list_all fully_populated (createArtworks loads arts)"
proof (induction loads arts rule: createArtworks.induct)
  case (1 arts)
  then show ?case by simp
next
  case (2 index imageWidth imageHeight loads arts)
  show ?case
  proof (cases "index < length imagePaths")
    case True
    then obtain a where a: "texture_loaded index imageWidth imageHeight = Inr a" "fully_populated a"
      using callback_pushes by blast
    then show ?thesis using 2 True by simp
  next
    case False
    then show ?thesis using 2 by simp
  qed
qed

lemma registry_length:
  "length (createArtworks loads arts) =
     length arts + length (filter (\<lambda>l. fst l < length imagePaths) loads)"
proof (induction loads arts rule: createArtworks.induct)
  case (1 arts)
  then show ?case by simp
next
  case (2 index imageWidth imageHeight loads arts)
  show ?case
  proof (cases "index < length imagePaths")
    case True
    then obtain a where a: "texture_loaded index imageWidth imageHeight = Inr a"
      using callback_pushes by blast
    then show ?thesis using 2 True by simp
  next
    case False
    then show ?thesis using 2 by simp
  qed
qed

text \<open>
  C10: every entry of the artwork registry, after any sequence of completed texture
  loads, has its width, height, title and description defined, so the guard of
  \<open>findNearestArtwork\<close> on undefined dimensions skips none of them; and every load of an
  image of \<open>imagePaths\<close> does push its entry, the callback never throws.
\<close>

theorem registry_entries_populated:
  "(\<forall>a \<in> set (createArtworks loads []). fully_populated a \<and> \<not> undefined_dimension a) \<and>
   length (createArtworks loads []) = length (filter (\<lambda>l. fst l < length imagePaths) loads)"
  using registry_populated[of "[]" loads] registry_length[of loads "[]"]
  by (auto simp: list_all_iff fully_populated_def undefined_dimension_def)


theorem registry_entries_populated_witness:
  "list_all fully_populated (createArtworks [(0, 800, 600), (12, 1, 1)] []) \<and>
   list_all (\<lambda>a. \<not> undefined_dimension a) (createArtworks [(0, 800, 600), (12, 1, 1)] []) \<and>
   length (createArtworks [(0, 800, 600), (12, 1, 1)] []) = 1"
  using registry_entries_populated[where loads = "[(0, 800, 600), (12, 1, 1)]"]
  by (simp add: list_all_iff table_lengths)

end
